theory Spec2Isabelle
  imports Main "HOL-Library.Word"
begin

unbundle bit_operations_syntax

section \<open>Host values: strings, numbers and big integers\<close>

text \<open>
  The ID decoder (\<^verbatim>\<open>src/pages/IdDecoderTool.tsx\<close>) works on three kinds of host values.

  \<^item> A string is a sequence of UTF-16 code units; \<^verbatim>\<open>charCodeAt\<close> reads one of them as a
    number in 0..65535. The model is a list of naturals.
  \<^item> A \<^verbatim>\<open>bigint\<close> is an unbounded integer: \<open>int\<close>. Its \<^verbatim>\<open>&\<close> is \<open>AND\<close> on the infinite
    two's complement, its \<^verbatim>\<open>>>\<close> rounds towards minus infinity as \<open>drop_bit\<close> does.
  \<^item> A \<^verbatim>\<open>number\<close> is a double. Every number of the decoder is an integer, so the model is
    the \<open>int\<close> that the double denotes, with the rounding of the conversion and of the
    addition written out.
\<close>

type_synonym jsstring = "nat list"

definition ascii :: "string \<Rightarrow> jsstring" where
  "ascii s = map of_char s"

function bit_length :: "int \<Rightarrow> nat" where
  "bit_length n = (if n \<le> 0 then 0 else Suc (bit_length (n div 2)))"
  by pat_completeness auto
termination
  by (relation "measure nat") auto

declare bit_length.simps [simp del]

text \<open>
  The nearest double of an integer, ties to even: an integer of at most 53 bits is kept,
  a longer one keeps its 53 leading bits. Magnitudes from \<open>2 ^ 1024\<close> on become
  \<^verbatim>\<open>Infinity\<close> in the host and are outside this model; the decoder reaches none of them.
\<close>

definition roundToDouble :: "int \<Rightarrow> int" where
  "roundToDouble x =
     (let m = \<bar>x\<bar>;
          e = bit_length m - 53;
          q = m div 2 ^ e;
          r = m mod 2 ^ e;
          q' = (if 2 * r > 2 ^ e \<or> (2 * r = 2 ^ e \<and> odd q) then q + 1 else q)
      in sgn x * (q' * 2 ^ e))"

text \<open>\<^verbatim>\<open>Number(b)\<close> for a bigint \<open>b\<close>, and \<^verbatim>\<open>a + b\<close> on numbers.\<close>

definition Number :: "int \<Rightarrow> int" where
  "Number b = roundToDouble b"

definition numAdd :: "int \<Rightarrow> int \<Rightarrow> int" where
  "numAdd a b = roundToDouble (a + b)"

text \<open>
  \<^verbatim>\<open>a << n\<close> on numbers: the left operand as a 32-bit integer, the shift count modulo 32,
  the result read as a signed 32-bit integer.
\<close>

definition shl32 :: "int \<Rightarrow> nat \<Rightarrow> int" where
  "shl32 a n = sint (push_bit (n mod 32) (word_of_int a :: 32 word))"

section \<open>Constants of the identifier layout\<close>

definition BITS3 :: nat where "BITS3 = 40"
definition BITS2 :: nat where "BITS2 = 14"
definition BITS1 :: nat where "BITS1 = 2"
definition BITS0 :: nat where "BITS0 = 7"
definition BITS01 :: nat where "BITS01 = BITS0 + BITS1"
definition BITS012 :: nat where "BITS012 = BITS01 + BITS2"

definition MASK1 :: int where "MASK1 = shl32 1 BITS1 - 1"
definition MASK0 :: int where "MASK0 = shl32 1 BITS0 - 1"
definition MASK3 :: int where "MASK3 = shl32 1 BITS3 - 1"
definition MASK2 :: int where "MASK2 = shl32 1 BITS2 - 1"

definition TIMESTAMP_OFFSET :: int where
  "TIMESTAMP_OFFSET = 1451574000000"

section \<open>Field extraction\<close>

definition getAppId :: "int \<Rightarrow> int" where
  "getAppId ident = Number (ident AND MASK0)"

definition getClusterId :: "int \<Rightarrow> int" where
  "getClusterId ident = Number (drop_bit BITS0 ident AND MASK1)"

definition getSequence :: "int \<Rightarrow> int" where
  "getSequence ident = Number (drop_bit BITS01 ident AND MASK2)"

definition getTimestamp :: "int \<Rightarrow> int" where
  "getTimestamp ident = numAdd (Number (drop_bit BITS012 ident)) TIMESTAMP_OFFSET"

section \<open>Host string operations\<close>

text \<open>
  \<^verbatim>\<open>String.prototype.trim\<close> removes the white space and line terminator code units of the
  language definition from both ends: TAB, LF, VT, FF, CR, SPACE, NBSP, U+1680,
  U+2000..U+200A, U+2028, U+2029, U+202F, U+205F, U+3000 and U+FEFF.
\<close>

definition isWhiteSpace :: "nat \<Rightarrow> bool" where
  "isWhiteSpace c \<longleftrightarrow>
     (9 \<le> c \<and> c \<le> 13) \<or> c = 32 \<or> c = 160 \<or> c = 5760 \<or> (8192 \<le> c \<and> c \<le> 8202) \<or>
     c = 8232 \<or> c = 8233 \<or> c = 8239 \<or> c = 8287 \<or> c = 12288 \<or> c = 65279"

definition trim :: "jsstring \<Rightarrow> jsstring" where
  "trim s = rev (dropWhile isWhiteSpace (rev (dropWhile isWhiteSpace s)))"

text \<open>
  The test \<^verbatim>\<open>/^\d+$/.test(s)\<close>: without flags \<^verbatim>\<open>\d\<close> is an ASCII digit and \<^verbatim>\<open>$\<close> is the end
  of the string, so the test holds for the non-empty strings of ASCII digits.
\<close>

definition isDigit :: "nat \<Rightarrow> bool" where
  "isDigit c \<longleftrightarrow> 48 \<le> c \<and> c \<le> 57"

definition isDecimal :: "jsstring \<Rightarrow> bool" where
  "isDecimal s \<longleftrightarrow> s \<noteq> [] \<and> list_all isDigit s"

text \<open>
  \<^verbatim>\<open>BigInt(s)\<close> on a string of decimal digits: the decoder calls it only where
  \<open>isDecimal s\<close> holds, and there it cannot throw.
\<close>

definition BigInt :: "jsstring \<Rightarrow> int" where
  "BigInt s = foldl (\<lambda>r c. r * 10 + (int c - 48)) 0 s"

text \<open>
  \<^verbatim>\<open>String.prototype.toLowerCase\<close>. ASCII capitals go to their small letters. Two code
  units outside ASCII have a lower case that contains ASCII: the Kelvin sign U+212A goes to
  \<^verbatim>\<open>k\<close>, and U+0130 goes to \<^verbatim>\<open>i\<close> followed by U+0307. Every other code unit outside ASCII is
  mapped by the host's Unicode tables to code units outside ASCII; the model keeps it as it
  is. The lowered string is read by \<open>decode36\<close> only, which refuses every code unit
  outside ASCII, so the two cannot be told apart there.
\<close>

definition lowerUnit :: "nat \<Rightarrow> jsstring" where
  "lowerUnit c =
     (if 65 \<le> c \<and> c \<le> 90 then [c + 32]
      else if c = 8490 then [107]
      else if c = 304 then [105, 775]
      else [c])"

definition toLowerCase :: "jsstring \<Rightarrow> jsstring" where
  "toLowerCase s = concat (map lowerUnit s)"

text \<open>
  \<^verbatim>\<open>String.prototype.toUpperCase\<close>, on ASCII: the decoder applies it to the output of
  \<^verbatim>\<open>toString(36)\<close> only, which is made of \<^verbatim>\<open>-\<close>, digits and small ASCII letters.
\<close>

definition upperUnit :: "nat \<Rightarrow> nat" where
  "upperUnit c = (if 97 \<le> c \<and> c \<le> 122 then c - 32 else c)"

definition toUpperCase :: "jsstring \<Rightarrow> jsstring" where
  "toUpperCase s = map upperUnit s"

text \<open>
  \<^verbatim>\<open>BigInt.prototype.toString(radix)\<close>: the digits of the magnitude, most significant
  first, small letters from ten on, a minus sign before a negative value.
\<close>

definition digitUnit :: "int \<Rightarrow> nat" where
  "digitUnit d = (if d < 10 then nat d + 48 else nat d + 87)"

function radixDigits :: "int \<Rightarrow> int \<Rightarrow> jsstring" where
  "radixDigits b n =
     (if b < 2 \<or> n < b then [digitUnit n]
      else radixDigits b (n div b) @ [digitUnit (n mod b)])"
  by pat_completeness auto
termination
proof (relation "measure (\<lambda>(b, n). nat n)")
  show "wf (measure (\<lambda>(b, n). nat n))" by simp
next
  fix b n :: int
  assume "\<not> (b < 2 \<or> n < b)"
  then have "2 \<le> b" and "b \<le> n" by simp_all
  then have "n div b < n" by (simp add: int_div_less_self)
  moreover have "0 < n" using \<open>2 \<le> b\<close> \<open>b \<le> n\<close> by simp
  ultimately show "((b, n div b), (b, n)) \<in> measure (\<lambda>(b, n). nat n)" by simp
qed

declare radixDigits.simps [simp del]

definition toStringRadix :: "int \<Rightarrow> int \<Rightarrow> jsstring" where
  "toStringRadix b v = (if v < 0 then 45 # radixDigits b (- v) else radixDigits b v)"

section \<open>The base-36 parser and formatter\<close>

text \<open>The digit of a code unit in \<open>decode36\<close>; \<open>- 1\<close> for a code unit that is none.\<close>

definition digit36 :: "nat \<Rightarrow> int" where
  "digit36 char =
     (if char \<ge> 48 \<and> char \<le> 57 then int char - 48
      else if char \<ge> 65 \<and> char \<le> 90 then int char - 55
      else if char \<ge> 97 \<and> char \<le> 122 then int char - 87
      else - 1)"

text \<open>
  The loop of \<open>decode36\<close> from index \<open>i\<close> on, as a recursion over the code units that are
  left. The accumulator is a bigint, so no step of it can overflow or throw, and the
  \<^verbatim>\<open>catch\<close> of the source has nothing to catch.
\<close>

fun decode36_loop :: "int \<Rightarrow> jsstring \<Rightarrow> int option" where
  "decode36_loop result [] = Some result"
| "decode36_loop result (char # rest) =
     (let digit = digit36 char
      in if digit = - 1 \<or> digit \<ge> 36 then None
         else decode36_loop (result * 36 + digit) rest)"

definition decode36 :: "jsstring \<Rightarrow> int option" where
  "decode36 v = decode36_loop 0 v"

definition encodeToBase36 :: "int \<Rightarrow> jsstring" where
  "encodeToBase36 decimal = toUpperCase (toStringRadix 36 decimal)"

text \<open>\<^verbatim>\<open>value.toString()\<close> of a bigint, the decimal text that the tool copies and groups.\<close>

definition toStringDecimal :: "int \<Rightarrow> jsstring" where
  "toStringDecimal v = toStringRadix 10 v"

section \<open>The decoder\<close>

datatype timezone = japan | local

text \<open>
  The record that the tool shows. The optional \<^verbatim>\<open>error\<close> field of the interface is never
  written by the decoder and is left out.
\<close>

record DecodedId =
  originalId :: jsstring
  decimalValue :: int
  appId :: int
  clusterId :: int
  sequence :: int
  timestamp :: int
  formattedTimestamp :: jsstring
  isValid :: bool

text \<open>The state cells of the component that the decoder reads and writes.\<close>

record ToolState =
  inputId :: jsstring
  decodedId :: "DecodedId option"
  error :: "string option"
  selectedTimezone :: timezone

text \<open>
  The three messages that \<open>decodeId\<close> can leave in \<open>error\<close>, under the names of the
  error kinds of the specification. The message of the outer \<^verbatim>\<open>catch\<close> is not among them:
  under the digit test \<^verbatim>\<open>BigInt\<close> cannot throw, \<open>decode36\<close> returns \<^verbatim>\<open>null\<close>
  instead of throwing, and \<^verbatim>\<open>formatTimestamp\<close> is called on time values that are valid
  dates only, so the handler is never entered.
\<close>

definition EmptyInput :: string where
  "EmptyInput = ''Please enter an ID to decode''"

definition InvalidFormat :: string where
  "InvalidFormat =
     ''Invalid ID format. Please enter a valid decimal number or base-36 string''"

definition OutOfRange :: string where
  "OutOfRange =
     ''ID value is out of valid 64-bit range (must be between 0 and 9,223,372,036,854,775,807)''"

definition maxInt64 :: int where
  "maxInt64 = BigInt (ascii ''9223372036854775807'')"

text \<open>
  The value of the local \<^verbatim>\<open>decimalValue\<close> once the dispatch between the two parsers has
  run, for the trimmed input \<open>t\<close>; \<open>None\<close> is \<^verbatim>\<open>null\<close>.
\<close>

definition parseDecimalValue :: "jsstring \<Rightarrow> int option" where
  "parseDecimalValue t =
     (if isDecimal t then Some (BigInt t) else decode36 (toLowerCase t))"

text \<open>
  \<open>decodeId\<close> is a handler of the component: it reads \<open>inputId\<close> and
  \<open>selectedTimezone\<close> from the state, the clock through \<^verbatim>\<open>Date.now()\<close>, and writes
  \<open>error\<close> and \<open>decodedId\<close>. The model takes the state and returns the state after
  the handler. The reading of the clock is the argument \<open>now\<close>, an integer time value;
  the calendar formatting \<^verbatim>\<open>formatTimestamp\<close>, which rests on the host's date and locale
  tables, is the argument \<open>fmt\<close>.
\<close>

definition decodeId ::
  "(int \<Rightarrow> timezone \<Rightarrow> jsstring) \<Rightarrow> int \<Rightarrow> ToolState \<Rightarrow> ToolState" where
  "decodeId fmt now st =
     (if trim (inputId st) = [] then st\<lparr>error := Some EmptyInput, decodedId := None\<rparr>
      else
        let st1 = st\<lparr>error := None\<rparr> in
        case parseDecimalValue (trim (inputId st)) of
          None \<Rightarrow> st1\<lparr>error := Some InvalidFormat, decodedId := None\<rparr>
        | Some v \<Rightarrow>
            if v < 0 \<or> v > maxInt64 then st1\<lparr>error := Some OutOfRange, decodedId := None\<rparr>
            else
              let ts = getTimestamp v;
                  isValidTimestamp = (ts > TIMESTAMP_OFFSET \<and> ts \<le> numAdd now 60000);
                  result = \<lparr>originalId = trim (inputId st),
                            decimalValue = v,
                            appId = getAppId v,
                            clusterId = getClusterId v,
                            sequence = getSequence v,
                            timestamp = ts,
                            formattedTimestamp = fmt ts (selectedTimezone st),
                            isValid = isValidTimestamp\<rparr>
              in st1\<lparr>decodedId := Some result, error := None\<rparr>)"

text \<open>
  A stand-in for \<open>fmt\<close> in the concrete runs below: it writes the time value in
  decimal. The decoder never reads the formatted text back.
\<close>

definition plainFormat :: "int \<Rightarrow> timezone \<Rightarrow> jsstring" where
  "plainFormat ts tz = toStringDecimal ts"

section \<open>The packing of the specification\<close>

text \<open>
  The repository only decodes. The packing is the one the specification writes:
  \<^verbatim>\<open>(timestampDelta << 23) | (sequence << 9) | (clusterId << 7) | appId\<close>.
\<close>

definition pack_spec :: "int \<Rightarrow> int \<Rightarrow> int \<Rightarrow> int \<Rightarrow> int" where
  "pack_spec delta sq cl app =
     push_bit 23 delta OR push_bit 9 sq OR push_bit 7 cl OR app"

section \<open>Numbers that are exact\<close>

lemma bit_length_le: "n < 2 ^ k \<Longrightarrow> bit_length n \<le> k"
proof (induction n arbitrary: k rule: bit_length.induct)
  case (1 n)
  show ?case
  proof (cases "n \<le> 0")
    case True
    then show ?thesis by (simp add: bit_length.simps)
  next
    case False
    with 1(2) obtain j where k: "k = Suc j" by (cases k) auto
    with 1(2) have "n div 2 < 2 ^ j" by auto
    from 1(1)[OF False this] show ?thesis
      using False k by (simp add: bit_length.simps[of n])
  qed
qed

lemma roundToDouble_exact: "\<bar>x\<bar> < 2 ^ 53 \<Longrightarrow> roundToDouble x = x"
  using bit_length_le[of "\<bar>x\<bar>" 53] by (simp add: roundToDouble_def Let_def mult_sgn_abs)

lemma MASK0_eq: "MASK0 = mask 7"
  by (simp add: MASK0_def shl32_def BITS0_def mask_eq_exp_minus_1)

lemma MASK1_eq: "MASK1 = mask 2"
  by (simp add: MASK1_def shl32_def BITS1_def mask_eq_exp_minus_1)

lemma MASK2_eq: "MASK2 = mask 14"
  by (simp add: MASK2_def shl32_def BITS2_def mask_eq_exp_minus_1)

text \<open>
  The shift that builds \<open>MASK3\<close> takes its count modulo 32, so the constant is 255 and
  not \<open>2 ^ 40 - 1\<close>. No function of the decoder reads it.
\<close>

lemma MASK3_eq: "MASK3 = 255"
  by (simp add: MASK3_def shl32_def BITS3_def)

lemma maxInt64_eq: "maxInt64 = 9223372036854775807"
  by (simp add: maxInt64_def BigInt_def ascii_def)

section \<open>The extraction functions as bit fields\<close>

lemma getAppId_take_bit: "getAppId x = take_bit 7 x"
proof -
  have "\<bar>take_bit 7 x\<bar> < 2 ^ 53"
    using take_bit_int_less_exp[of 7 x] take_bit_nonnegative[of 7 x] by simp
  then show ?thesis
    by (simp add: getAppId_def MASK0_eq Number_def roundToDouble_exact take_bit_eq_mask)
qed

lemma getClusterId_take_bit: "getClusterId x = take_bit 2 (drop_bit 7 x)"
proof -
  have "\<bar>take_bit 2 (drop_bit 7 x)\<bar> < 2 ^ 53"
    using take_bit_int_less_exp[of 2 "drop_bit 7 x"] take_bit_nonnegative[of 2 "drop_bit 7 x"]
    by simp
  then show ?thesis
    by (simp add: getClusterId_def MASK1_eq BITS0_def Number_def roundToDouble_exact
        take_bit_eq_mask)
qed

lemma getSequence_take_bit: "getSequence x = take_bit 14 (drop_bit 9 x)"
proof -
  have "\<bar>take_bit 14 (drop_bit 9 x)\<bar> < 2 ^ 53"
    using take_bit_int_less_exp[of 14 "drop_bit 9 x"] take_bit_nonnegative[of 14 "drop_bit 9 x"]
    by simp
  then show ?thesis
    by (simp add: getSequence_def MASK2_eq BITS0_def BITS1_def BITS01_def Number_def
        roundToDouble_exact take_bit_eq_mask)
qed

lemma drop_bit_23_range:
  fixes x :: int
  assumes "0 \<le> x" and "x < 2 ^ 63"
  shows "0 \<le> drop_bit 23 x" and "drop_bit 23 x < 2 ^ 40"
proof -
  have "x div 2 ^ 23 < 2 ^ 40" using assms by simp
  moreover have "0 \<le> x div 2 ^ 23" using assms by simp
  ultimately show "0 \<le> drop_bit 23 x" and "drop_bit 23 x < 2 ^ 40"
    by (simp_all add: drop_bit_eq_div)
qed

lemma getTimestamp_in_range:
  assumes "0 \<le> x" and "x < 2 ^ 63"
  shows "getTimestamp x = drop_bit 23 x + TIMESTAMP_OFFSET"
proof -
  note d = drop_bit_23_range[OF assms]
  then have "\<bar>drop_bit 23 x\<bar> < 2 ^ 53" by simp
  moreover have "\<bar>drop_bit 23 x + TIMESTAMP_OFFSET\<bar> < 2 ^ 53"
    using d by (simp add: TIMESTAMP_OFFSET_def)
  ultimately show ?thesis
    by (simp add: getTimestamp_def BITS012_def BITS01_def BITS0_def BITS1_def BITS2_def
        Number_def numAdd_def roundToDouble_exact)
qed

lemma pack_unpack:
  assumes "0 \<le> app" "app < 2 ^ 7" "0 \<le> cl" "cl < 2 ^ 2" "0 \<le> sq" "sq < 2 ^ 14"
    "0 \<le> delta" "delta < 2 ^ 40"
  shows "take_bit 7 (pack_spec delta sq cl app) = app"
    and "take_bit 2 (drop_bit 7 (pack_spec delta sq cl app)) = cl"
    and "take_bit 14 (drop_bit 9 (pack_spec delta sq cl app)) = sq"
    and "drop_bit 23 (pack_spec delta sq cl app) = delta"
    and "0 \<le> pack_spec delta sq cl app"
    and "pack_spec delta sq cl app < 2 ^ 63"
proof -
  have a: "take_bit 7 app = app" "take_bit 2 cl = cl" "take_bit 14 sq = sq"
    "take_bit 40 delta = delta"
    using assms by (simp_all add: take_bit_int_eq_self)
  show "take_bit 7 (pack_spec delta sq cl app) = app"
    by (subst (2) a(1)[symmetric], rule bit_eqI) (auto simp add: pack_spec_def bit_simps)
  show "take_bit 2 (drop_bit 7 (pack_spec delta sq cl app)) = cl"
    by (subst (2) a(2)[symmetric], subst a(1)[symmetric], rule bit_eqI)
      (auto simp add: pack_spec_def bit_simps)
  show "take_bit 14 (drop_bit 9 (pack_spec delta sq cl app)) = sq"
    by (subst (2) a(3)[symmetric], subst a(1)[symmetric], subst a(2)[symmetric], rule bit_eqI)
      (auto simp add: pack_spec_def bit_simps)
  show "drop_bit 23 (pack_spec delta sq cl app) = delta"
    by (subst a(1)[symmetric], subst a(2)[symmetric], subst a(3)[symmetric], rule bit_eqI)
      (auto simp add: pack_spec_def bit_simps)
  show "0 \<le> pack_spec delta sq cl app"
    using assms by (simp add: pack_spec_def)
  have "take_bit 63 (pack_spec delta sq cl app) = pack_spec delta sq cl app"
    apply (subst (2) a(1)[symmetric], subst (2) a(2)[symmetric])
    apply (subst (2) a(3)[symmetric], subst (2) a(4)[symmetric])
    apply (subst a(1)[symmetric], subst a(2)[symmetric])
    apply (subst a(3)[symmetric], subst a(4)[symmetric], rule bit_eqI)
    apply (auto simp add: pack_spec_def bit_simps)
    done
  then show "pack_spec delta sq cl app < 2 ^ 63"
    using take_bit_int_less_exp[of 63 "pack_spec delta sq cl app"] by simp
qed

lemma repack:
  "pack_spec (drop_bit 23 x) (take_bit 14 (drop_bit 9 x)) (take_bit 2 (drop_bit 7 x))
     (take_bit 7 x) = x"
proof (rule bit_eqI)
  fix n :: nat
  consider "n < 7" | "7 \<le> n" "n < 9" | "9 \<le> n" "n < 23" | "23 \<le> n" by linarith
  then show "bit (pack_spec (drop_bit 23 x) (take_bit 14 (drop_bit 9 x))
      (take_bit 2 (drop_bit 7 x)) (take_bit 7 x)) n = bit x n"
    by cases (auto simp add: pack_spec_def bit_simps)
qed

section \<open>Field extraction and packing\<close>

text \<open>
  C1. For \<open>appId\<close> in 0..127, \<open>clusterId\<close> in 0..3, \<open>sequence\<close> in 0..16383 and a
  delta in 0..\<open>2 ^ 40 - 1\<close>, the four extraction functions applied to the packed value
  give back the four values, the timestamp after the epoch offset is taken off. The other
  way round, every raw value in 0..\<open>2 ^ 63 - 1\<close> is the packing of its own four fields,
  and these lie in the four ranges.
\<close>

theorem field_extraction_inverts_packing:
  "(0 \<le> app \<and> app \<le> 127 \<and> 0 \<le> cl \<and> cl \<le> 3 \<and> 0 \<le> sq \<and> sq \<le> 16383 \<and>
    0 \<le> delta \<and> delta \<le> 2 ^ 40 - 1 \<longrightarrow>
      getAppId (pack_spec delta sq cl app) = app \<and>
      getClusterId (pack_spec delta sq cl app) = cl \<and>
      getSequence (pack_spec delta sq cl app) = sq \<and>
      getTimestamp (pack_spec delta sq cl app) - TIMESTAMP_OFFSET = delta) \<and>
   (0 \<le> raw \<and> raw \<le> 2 ^ 63 - 1 \<longrightarrow>
      pack_spec (getTimestamp raw - TIMESTAMP_OFFSET) (getSequence raw) (getClusterId raw)
        (getAppId raw) = raw \<and>
      0 \<le> getAppId raw \<and> getAppId raw \<le> 127 \<and>
      0 \<le> getClusterId raw \<and> getClusterId raw \<le> 3 \<and>
      0 \<le> getSequence raw \<and> getSequence raw \<le> 16383 \<and>
      0 \<le> getTimestamp raw - TIMESTAMP_OFFSET \<and>
      getTimestamp raw - TIMESTAMP_OFFSET \<le> 2 ^ 40 - 1)"
proof (intro conjI impI)
  assume h: "0 \<le> app \<and> app \<le> 127 \<and> 0 \<le> cl \<and> cl \<le> 3 \<and> 0 \<le> sq \<and> sq \<le> 16383 \<and>
    0 \<le> delta \<and> delta \<le> 2 ^ 40 - 1"
  then have b: "0 \<le> app" "app < 2 ^ 7" "0 \<le> cl" "cl < 2 ^ 2" "0 \<le> sq" "sq < 2 ^ 14"
    "0 \<le> delta" "delta < 2 ^ 40"
    by simp_all
  note p = pack_unpack[OF b]
  show "getAppId (pack_spec delta sq cl app) = app"
    by (simp only: getAppId_take_bit p(1))
  show "getClusterId (pack_spec delta sq cl app) = cl"
    by (simp only: getClusterId_take_bit p(2))
  show "getSequence (pack_spec delta sq cl app) = sq"
    by (simp only: getSequence_take_bit p(3))
  show "getTimestamp (pack_spec delta sq cl app) - TIMESTAMP_OFFSET = delta"
    by (simp add: getTimestamp_in_range[OF p(5) p(6)] p(4))
next
  assume "0 \<le> raw \<and> raw \<le> 2 ^ 63 - 1"
  then have r: "0 \<le> raw" "raw < 2 ^ 63" by simp_all
  have ts: "getTimestamp raw - TIMESTAMP_OFFSET = drop_bit 23 raw"
    by (simp add: getTimestamp_in_range[OF r])
  show "pack_spec (getTimestamp raw - TIMESTAMP_OFFSET) (getSequence raw) (getClusterId raw)
        (getAppId raw) = raw"
    by (simp only: ts getAppId_take_bit getClusterId_take_bit getSequence_take_bit repack)
  show "0 \<le> getAppId raw"
    by (simp add: getAppId_take_bit)
  show "getAppId raw \<le> 127"
    using take_bit_int_less_exp[of 7 raw] by (simp add: getAppId_take_bit)
  show "0 \<le> getClusterId raw"
    by (simp add: getClusterId_take_bit)
  show "getClusterId raw \<le> 3"
    using take_bit_int_less_exp[of 2 "drop_bit 7 raw"] by (simp add: getClusterId_take_bit)
  show "0 \<le> getSequence raw"
    by (simp add: getSequence_take_bit)
  show "getSequence raw \<le> 16383"
    using take_bit_int_less_exp[of 14 "drop_bit 9 raw"] by (simp add: getSequence_take_bit)
  show "0 \<le> getTimestamp raw - TIMESTAMP_OFFSET"
    using drop_bit_23_range(1)[OF r] by (simp only: ts)
  show "getTimestamp raw - TIMESTAMP_OFFSET \<le> 2 ^ 40 - 1"
    using drop_bit_23_range(2)[OF r] by (simp only: ts)
qed

theorem field_extraction_inverts_packing_witness:
  "getAppId (pack_spec 123456789 100 2 5) = 5 \<and>
   getClusterId (pack_spec 123456789 100 2 5) = 2 \<and>
   getSequence (pack_spec 123456789 100 2 5) = 100 \<and>
   getTimestamp (pack_spec 123456789 100 2 5) - TIMESTAMP_OFFSET = 123456789 \<and>
   pack_spec (getTimestamp 9223372036854775807 - TIMESTAMP_OFFSET)
     (getSequence 9223372036854775807) (getClusterId 9223372036854775807)
     (getAppId 9223372036854775807) = 9223372036854775807 \<and>
   getAppId 9223372036854775807 \<le> 127"
  using field_extraction_inverts_packing
    [where app = 5 and cl = 2 and sq = 100 and delta = 123456789
       and raw = 9223372036854775807]
  by simp

section \<open>The worked example\<close>

text \<open>
  C5. The raw value 1035630607911173, which is the packing of delta 123456789, sequence 100,
  cluster 2 and application 5, decodes to \<open>appId = 5\<close>, \<open>clusterId = 2\<close>,
  \<open>sequence = 100\<close> and \<open>timestamp = 1451697456789\<close>, the delta plus the epoch offset
  1451574000000.
\<close>

theorem exact_decode_scenario:
  "pack_spec 123456789 100 2 5 = 1035630607911173 \<and>
   getAppId 1035630607911173 = 5 \<and>
   getClusterId 1035630607911173 = 2 \<and>
   getSequence 1035630607911173 = 100 \<and>
   getTimestamp 1035630607911173 = 1451697456789 \<and>
   getTimestamp 1035630607911173 = 123456789 + TIMESTAMP_OFFSET \<and>
   TIMESTAMP_OFFSET = 1451574000000"
proof (intro conjI)
  show "pack_spec 123456789 100 2 5 = 1035630607911173"
    by (simp add: pack_spec_def push_bit_eq_mult)
  show "getAppId 1035630607911173 = 5"
    by (simp add: getAppId_take_bit take_bit_eq_mod)
  show "getClusterId 1035630607911173 = 2"
    by (simp add: getClusterId_take_bit take_bit_eq_mod drop_bit_eq_div)
  show "getSequence 1035630607911173 = 100"
    by (simp add: getSequence_take_bit take_bit_eq_mod drop_bit_eq_div)
  show "getTimestamp 1035630607911173 = 1451697456789"
    by (simp add: getTimestamp_in_range TIMESTAMP_OFFSET_def drop_bit_eq_div)
  show "getTimestamp 1035630607911173 = 123456789 + TIMESTAMP_OFFSET"
    by (simp add: getTimestamp_in_range TIMESTAMP_OFFSET_def drop_bit_eq_div)
  show "TIMESTAMP_OFFSET = 1451574000000"
    by (simp add: TIMESTAMP_OFFSET_def)
qed

section \<open>Parsing what the formatters write\<close>

lemma decode36_loop_snoc:
  "decode36_loop acc (xs @ [c]) =
     (case decode36_loop acc xs of
        None \<Rightarrow> None
      | Some r \<Rightarrow> if digit36 c = - 1 \<or> digit36 c \<ge> 36 then None else Some (r * 36 + digit36 c))"
  by (induction xs arbitrary: acc) (simp_all add: Let_def)

lemma digit36_upper_digitUnit:
  "0 \<le> d \<Longrightarrow> d < 36 \<Longrightarrow> digit36 (upperUnit (digitUnit d)) = d"
  by (auto simp add: digit36_def upperUnit_def digitUnit_def)

lemma decode36_loop_radixDigits:
  "0 \<le> n \<Longrightarrow> decode36_loop 0 (toUpperCase (radixDigits 36 n)) = Some n"
proof (induction "36 :: int" n rule: radixDigits.induct)
  case (1 n)
  show ?case
  proof (cases "n < 36")
    case True
    with 1(2) show ?thesis
      by (simp add: radixDigits.simps[of 36 n] toUpperCase_def digit36_upper_digitUnit Let_def)
  next
    case False
    then have "0 \<le> n div 36" by simp
    with 1(1) False have ih: "decode36_loop 0 (toUpperCase (radixDigits 36 (n div 36))) = Some (n div 36)"
      by simp
    have m: "0 \<le> n mod 36" "n mod 36 < 36" by simp_all
    have "toUpperCase (radixDigits 36 n) = toUpperCase (radixDigits 36 (n div 36)) @ [upperUnit (digitUnit (n mod 36))]"
      using False by (simp add: radixDigits.simps[of 36 n] toUpperCase_def)
    moreover from m have "n mod 36 \<noteq> - 1 \<and> \<not> 36 \<le> n mod 36" by linarith
    ultimately show ?thesis
      by (simp add: decode36_loop_snoc ih digit36_upper_digitUnit)
  qed
qed

lemma isDigit_digitUnit:
  "0 \<le> d \<Longrightarrow> d < 10 \<Longrightarrow> isDigit (digitUnit d) \<and> int (digitUnit d) - 48 = d"
  by (auto simp add: isDigit_def digitUnit_def)

lemma radixDigits_decimal:
  "0 \<le> n \<Longrightarrow> list_all isDigit (radixDigits 10 n) \<and> radixDigits 10 n \<noteq> [] \<and> BigInt (radixDigits 10 n) = n"
proof (induction "10 :: int" n rule: radixDigits.induct)
  case (1 n)
  show ?case
  proof (cases "n < 10")
    case True
    with 1(2) show ?thesis
      by (simp add: radixDigits.simps[of 10 n] isDigit_digitUnit BigInt_def)
  next
    case False
    then have "0 \<le> n div 10" by simp
    with 1(1) False have ih: "list_all isDigit (radixDigits 10 (n div 10))" "BigInt (radixDigits 10 (n div 10)) = n div 10"
      by simp_all
    have m: "0 \<le> n mod 10" "n mod 10 < 10" by simp_all
    have e: "radixDigits 10 n = radixDigits 10 (n div 10) @ [digitUnit (n mod 10)]"
      using False by (simp add: radixDigits.simps[of 10 n])
    have "BigInt (radixDigits 10 n) = BigInt (radixDigits 10 (n div 10)) * 10 + (int (digitUnit (n mod 10)) - 48)"
      by (simp add: e BigInt_def)
    then have "BigInt (radixDigits 10 n) = n"
      using m by (simp add: ih(2) isDigit_digitUnit)
    then show ?thesis using m by (simp add: e ih(1) isDigit_digitUnit)
  qed
qed

lemma radixDigits_36_alphabet:
  "0 \<le> n \<Longrightarrow> list_all (\<lambda>c. isDigit c \<or> (65 \<le> c \<and> c \<le> 90)) (toUpperCase (radixDigits 36 n))"
proof (induction "36 :: int" n rule: radixDigits.induct)
  case (1 n)
  have u: "\<And>d. 0 \<le> d \<Longrightarrow> d < 36 \<Longrightarrow> isDigit (upperUnit (digitUnit d)) \<or> (65 \<le> upperUnit (digitUnit d) \<and> upperUnit (digitUnit d) \<le> 90)"
    by (auto simp add: isDigit_def upperUnit_def digitUnit_def)
  show ?case
  proof (cases "n < 36")
    case True
    with 1(2) u[of n] show ?thesis
      by (simp add: radixDigits.simps[of 36 n] toUpperCase_def)
  next
    case False
    then have "0 \<le> n div 36" by simp
    with 1(1) False have ih: "list_all (\<lambda>c. isDigit c \<or> (65 \<le> c \<and> c \<le> 90)) (toUpperCase (radixDigits 36 (n div 36)))"
      by simp
    have m: "0 \<le> n mod 36" "n mod 36 < 36" by simp_all
    have "toUpperCase (radixDigits 36 n) = toUpperCase (radixDigits 36 (n div 36)) @ [upperUnit (digitUnit (n mod 36))]"
      using False by (simp add: radixDigits.simps[of 36 n] toUpperCase_def)
    then show ?thesis
      using u[OF m] ih by simp
  qed
qed

text \<open>
  C2. For every value \<open>v\<close> from 0 to \<open>2 ^ 64 - 1\<close>, the base-36 parser reads the
  base-36 text of \<open>v\<close> back as \<open>v\<close>, that text being made of digits and capital
  letters only; and the decimal text of \<open>v\<close> passes the digit test and is read back as
  \<open>v\<close>, by \<^verbatim>\<open>BigInt\<close> and so by the dispatch of the decoder.
\<close>

theorem text_round_trip:
  assumes "0 \<le> v" and "v \<le> 2 ^ 64 - 1"
  shows "decode36 (encodeToBase36 v) = Some v \<and>
         list_all (\<lambda>c. isDigit c \<or> (65 \<le> c \<and> c \<le> 90)) (encodeToBase36 v) \<and>
         isDecimal (toStringDecimal v) \<and> BigInt (toStringDecimal v) = v \<and>
         parseDecimalValue (toStringDecimal v) = Some v"
  using assms(1) decode36_loop_radixDigits[of v] radixDigits_decimal[of v]
    radixDigits_36_alphabet[of v]
  by (simp add: decode36_def encodeToBase36_def toStringRadix_def toStringDecimal_def
      isDecimal_def parseDecimalValue_def)

theorem text_round_trip_witness:
  "(0::int) \<le> 18446744073709551615 \<and> (18446744073709551615::int) \<le> 2 ^ 64 - 1 \<and>
   decode36 (encodeToBase36 18446744073709551615) = Some 18446744073709551615 \<and>
   BigInt (toStringDecimal 18446744073709551615) = 18446744073709551615"
  using text_round_trip[of 18446744073709551615] by simp

section \<open>The four outcomes of the decoder\<close>

lemma numAdd_exact: "\<bar>a + b\<bar> < 2 ^ 53 \<Longrightarrow> numAdd a b = a + b"
  by (simp add: numAdd_def roundToDouble_exact)

lemma trim_Nil_iff: "trim s = [] \<longleftrightarrow> list_all isWhiteSpace s"
proof
  assume "trim s = []"
  then have a: "\<forall>x\<in>set (dropWhile isWhiteSpace s). isWhiteSpace x"
    by (simp add: trim_def dropWhile_eq_Nil_conv)
  have "dropWhile isWhiteSpace s = []"
  proof (rule ccontr)
    assume ne: "dropWhile isWhiteSpace s \<noteq> []"
    then have "\<not> isWhiteSpace (hd (dropWhile isWhiteSpace s))" by (rule hd_dropWhile)
    moreover have "hd (dropWhile isWhiteSpace s) \<in> set (dropWhile isWhiteSpace s)"
      using ne by simp
    ultimately show False using a by blast
  qed
  then show "list_all isWhiteSpace s"
    by (simp add: dropWhile_eq_Nil_conv list_all_iff)
next
  assume "list_all isWhiteSpace s"
  then have "dropWhile isWhiteSpace s = []"
    by (simp add: dropWhile_eq_Nil_conv list_all_iff)
  then show "trim s = []" by (simp add: trim_def del: dropWhile_eq_Nil_conv)
qed

lemma decodeId_empty:
  "trim (inputId st) = [] \<Longrightarrow>
   decodeId fmt now st = st\<lparr>error := Some EmptyInput, decodedId := None\<rparr>"
  by (simp add: decodeId_def)


lemma decodeId_out_of_range:
  "trim (inputId st) \<noteq> [] \<Longrightarrow> parseDecimalValue (trim (inputId st)) = Some v \<Longrightarrow>
   v < 0 \<or> v > 9223372036854775807 \<Longrightarrow>
   decodeId fmt now st = st\<lparr>error := Some OutOfRange, decodedId := None\<rparr>"
  by (simp add: decodeId_def maxInt64_eq)

lemma decodeId_decoded:
  "trim (inputId st) \<noteq> [] \<Longrightarrow> parseDecimalValue (trim (inputId st)) = Some v \<Longrightarrow>
   0 \<le> v \<Longrightarrow> v \<le> 9223372036854775807 \<Longrightarrow>
   decodeId fmt now st =
     st\<lparr>error := None,
        decodedId := Some
          \<lparr>originalId = trim (inputId st),
           decimalValue = v,
           appId = getAppId v,
           clusterId = getClusterId v,
           sequence = getSequence v,
           timestamp = getTimestamp v,
           formattedTimestamp = fmt (getTimestamp v) (selectedTimezone st),
           isValid =
             (getTimestamp v > TIMESTAMP_OFFSET \<and> getTimestamp v \<le> numAdd now 60000)\<rparr>\<rparr>"
  by (simp add: decodeId_def maxInt64_eq Let_def)



lemma digit36_le: "digit36 c < 36"
  by (simp add: digit36_def)

lemma decode36_loop_foldl:
  "list_all (\<lambda>c. digit36 c \<noteq> - 1) s \<Longrightarrow>
   decode36_loop acc s = Some (foldl (\<lambda>r c. r * 36 + digit36 c) acc s)"
  by (induction s arbitrary: acc) (simp_all add: Let_def digit36_le not_le)




section \<open>Plausibility of the decoded timestamp\<close>

text \<open>
  A timestamp thirty seconds ahead of the clock is not always flagged as valid. The input 0
  has the timestamp 1451574000000, the epoch offset itself; at the reading 1451573970000
  that is thirty seconds ahead, and the strict comparison with the offset makes
  \<open>isValid\<close> false.
\<close>

theorem plausibility_thirty_seconds_counterexample:
  "getTimestamp 0 = 1451573970000 + 30000 \<and>
   decodeId plainFormat 1451573970000
     \<lparr>inputId = ascii ''0'', decodedId = None, error = None, selectedTimezone = japan\<rparr> =
   \<lparr>inputId = ascii ''0'',
    decodedId = Some
      \<lparr>originalId = ascii ''0'', decimalValue = 0, appId = 0, clusterId = 0, sequence = 0,
       timestamp = 1451574000000, formattedTimestamp = ascii ''1451574000000'',
       isValid = False\<rparr>,
    error = None, selectedTimezone = japan\<rparr>"
proof -
  let ?st = "\<lparr>inputId = ascii ''0'', decodedId = None, error = None,
      selectedTimezone = japan\<rparr>"
  have t: "trim (ascii ''0'') = ascii ''0''"
    by (simp add: trim_def ascii_def isWhiteSpace_def)
  have h1: "trim (inputId ?st) \<noteq> []"
    by (simp add: t) (simp add: ascii_def)
  have h2: "parseDecimalValue (trim (inputId ?st)) = Some 0"
    by (simp add: t)
      (simp add: parseDecimalValue_def isDecimal_def isDigit_def ascii_def BigInt_def)
  have g: "getTimestamp 0 = 1451574000000" "getAppId 0 = 0" "getClusterId 0 = 0"
    "getSequence 0 = 0"
    by (simp_all add: getAppId_take_bit getClusterId_take_bit getSequence_take_bit
        getTimestamp_in_range TIMESTAMP_OFFSET_def)
  have f: "plainFormat 1451574000000 japan = ascii ''1451574000000''"
    by (simp add: plainFormat_def toStringDecimal_def toStringRadix_def radixDigits.simps
        digitUnit_def ascii_def)
  have "decodeId plainFormat 1451573970000 ?st =
   \<lparr>inputId = ascii ''0'',
    decodedId = Some
      \<lparr>originalId = ascii ''0'', decimalValue = 0, appId = 0, clusterId = 0, sequence = 0,
       timestamp = 1451574000000, formattedTimestamp = ascii ''1451574000000'',
       isValid = False\<rparr>,
    error = None, selectedTimezone = japan\<rparr>"
    by (simp add: decodeId_decoded[OF h1 h2] g f t TIMESTAMP_OFFSET_def)
  then show ?thesis by (simp add: g)
qed

text \<open>
  C3, amended. For every input that parses to a value in range, and every reading \<open>now\<close>
  of the clock (a time value, at most 8640000000000000 in magnitude), the decoder leaves no
  error and a complete record whose flag \<open>isValid\<close> is
  \<open>timestamp > TIMESTAMP_OFFSET \<and> timestamp \<le> now + 60000\<close>; a false flag changes
  nothing else in the record. A timestamp two hours ahead of \<open>now\<close> gives the flag
  \<open>False\<close>; one thirty seconds ahead gives \<open>True\<close> exactly when it lies after the
  epoch offset.
\<close>

theorem plausibility_flag:
  assumes "trim (inputId st) \<noteq> []"
    and "parseDecimalValue (trim (inputId st)) = Some v"
    and "0 \<le> v" and "v \<le> 9223372036854775807"
    and "\<bar>now\<bar> \<le> 8640000000000000"
  shows "decodeId fmt now st =
     st\<lparr>error := None,
        decodedId := Some
          \<lparr>originalId = trim (inputId st),
           decimalValue = v,
           appId = getAppId v,
           clusterId = getClusterId v,
           sequence = getSequence v,
           timestamp = getTimestamp v,
           formattedTimestamp = fmt (getTimestamp v) (selectedTimezone st),
           isValid =
             (getTimestamp v > TIMESTAMP_OFFSET \<and> getTimestamp v \<le> now + 60000)\<rparr>\<rparr> \<and>
     (getTimestamp v = now + 7200000 \<longrightarrow>
        map_option isValid (decodedId (decodeId fmt now st)) = Some False) \<and>
     (getTimestamp v = now + 30000 \<longrightarrow>
        map_option isValid (decodedId (decodeId fmt now st)) =
          Some (getTimestamp v > TIMESTAMP_OFFSET))"
proof -
  have "\<bar>now + 60000\<bar> < 2 ^ 53" using assms(5) by simp
  then have "numAdd now 60000 = now + 60000" by (rule numAdd_exact)
  then have d: "decodeId fmt now st =
     st\<lparr>error := None,
        decodedId := Some
          \<lparr>originalId = trim (inputId st),
           decimalValue = v,
           appId = getAppId v,
           clusterId = getClusterId v,
           sequence = getSequence v,
           timestamp = getTimestamp v,
           formattedTimestamp = fmt (getTimestamp v) (selectedTimezone st),
           isValid =
             (getTimestamp v > TIMESTAMP_OFFSET \<and> getTimestamp v \<le> now + 60000)\<rparr>\<rparr>"
    using decodeId_decoded[OF assms(1-4), of fmt now] by simp
  have "getTimestamp v = now + 7200000 \<longrightarrow>
        map_option isValid (decodedId (decodeId fmt now st)) = Some False"
    by (simp add: d)
  moreover have "getTimestamp v = now + 30000 \<longrightarrow>
        map_option isValid (decodedId (decodeId fmt now st)) =
          Some (getTimestamp v > TIMESTAMP_OFFSET)"
    by (simp add: d)
  ultimately show ?thesis using d by simp
qed

theorem plausibility_flag_witness:
  "decodeId plainFormat 1451690256789
     \<lparr>inputId = ascii ''1035630607911173'', decodedId = None, error = None,
      selectedTimezone = japan\<rparr> =
   \<lparr>inputId = ascii ''1035630607911173'',
    decodedId = Some
      \<lparr>originalId = ascii ''1035630607911173'', decimalValue = 1035630607911173,
       appId = 5, clusterId = 2, sequence = 100, timestamp = 1451697456789,
       formattedTimestamp = ascii ''1451697456789'', isValid = False\<rparr>,
    error = None, selectedTimezone = japan\<rparr> \<and>
   map_option isValid (decodedId (decodeId plainFormat 1451697426789
     \<lparr>inputId = ascii ''1035630607911173'', decodedId = None, error = None,
      selectedTimezone = japan\<rparr>)) = Some True"
proof -
  let ?st = "\<lparr>inputId = ascii ''1035630607911173'', decodedId = None, error = None,
      selectedTimezone = japan\<rparr>"
  have t: "trim (ascii ''1035630607911173'') = ascii ''1035630607911173''"
    by (simp add: trim_def ascii_def isWhiteSpace_def)
  have h1: "trim (inputId ?st) \<noteq> []"
    by (simp add: t) (simp add: ascii_def)
  have h2: "parseDecimalValue (trim (inputId ?st)) = Some 1035630607911173"
    by (simp add: t)
      (simp add: parseDecimalValue_def isDecimal_def isDigit_def ascii_def BigInt_def)
  have g: "getTimestamp 1035630607911173 = 1451697456789" "getAppId 1035630607911173 = 5"
     "getClusterId 1035630607911173 = 2" "getSequence 1035630607911173 = 100"
    by (simp_all add: getAppId_take_bit getClusterId_take_bit getSequence_take_bit
        getTimestamp_in_range take_bit_eq_mod drop_bit_eq_div TIMESTAMP_OFFSET_def)
  have f: "plainFormat 1451697456789 japan = ascii ''1451697456789''"
    by (simp add: plainFormat_def toStringDecimal_def toStringRadix_def radixDigits.simps
        digitUnit_def ascii_def)
  have "decodeId plainFormat 1451690256789 ?st =
   \<lparr>inputId = ascii ''1035630607911173'',
    decodedId = Some
      \<lparr>originalId = ascii ''1035630607911173'', decimalValue = 1035630607911173,
       appId = 5, clusterId = 2, sequence = 100, timestamp = 1451697456789,
       formattedTimestamp = ascii ''1451697456789'', isValid = False\<rparr>,
    error = None, selectedTimezone = japan\<rparr>"
    using plausibility_flag[OF h1 h2, of 1451690256789 plainFormat]
    by (simp add: g f t TIMESTAMP_OFFSET_def)
  moreover have
    "map_option isValid (decodedId (decodeId plainFormat 1451697426789 ?st)) = Some True"
    using plausibility_flag[OF h1 h2, of 1451697426789 plainFormat]
    by (simp add: g TIMESTAMP_OFFSET_def)
  ultimately show ?thesis by simp
qed

section \<open>The range check\<close>

text \<open>
  C6. Whenever the parsed value lies outside 0..9223372036854775807, the decoder leaves the
  out-of-range message in \<open>error\<close> and no record in \<open>decodedId\<close>. The decimal input
  9223372036854775808 is such a case, whatever the rest of the state, the clock and the
  formatting.
\<close>

theorem out_of_range_rejected:
  "(trim (inputId st) \<noteq> [] \<and> parseDecimalValue (trim (inputId st)) = Some v \<and>
    (v < 0 \<or> v > 9223372036854775807) \<longrightarrow>
      decodeId fmt now st = st\<lparr>error := Some OutOfRange, decodedId := None\<rparr>) \<and>
   decodeId fmt now (st\<lparr>inputId := ascii ''9223372036854775808''\<rparr>) =
     st\<lparr>inputId := ascii ''9223372036854775808'', error := Some OutOfRange,
        decodedId := None\<rparr>"
proof (intro conjI impI)
  assume "trim (inputId st) \<noteq> [] \<and> parseDecimalValue (trim (inputId st)) = Some v \<and>
    (v < 0 \<or> v > 9223372036854775807)"
  then show "decodeId fmt now st = st\<lparr>error := Some OutOfRange, decodedId := None\<rparr>"
    using decodeId_out_of_range[of st v fmt now] by simp
next
  let ?st = "st\<lparr>inputId := ascii ''9223372036854775808''\<rparr>"
  have t: "trim (ascii ''9223372036854775808'') = ascii ''9223372036854775808''"
    by (simp add: trim_def ascii_def isWhiteSpace_def)
  have h1: "trim (inputId ?st) \<noteq> []"
    by (simp add: t) (simp add: ascii_def)
  have h2: "parseDecimalValue (trim (inputId ?st)) = Some 9223372036854775808"
    by (simp add: t)
      (simp add: parseDecimalValue_def isDecimal_def isDigit_def ascii_def BigInt_def)
  show "decodeId fmt now ?st =
     st\<lparr>inputId := ascii ''9223372036854775808'', error := Some OutOfRange,
        decodedId := None\<rparr>"
    using decodeId_out_of_range[OF h1 h2, of fmt now] by simp
qed

theorem out_of_range_rejected_witness:
  "decodeId plainFormat 1700000000000
     \<lparr>inputId = ascii ''9223372036854775808'', decodedId = None, error = None,
      selectedTimezone = japan\<rparr> =
   \<lparr>inputId = ascii ''9223372036854775808'', decodedId = None, error = Some OutOfRange,
    selectedTimezone = japan\<rparr>"
proof -
  let ?st = "\<lparr>inputId = ascii ''9223372036854775808'', decodedId = None, error = None,
      selectedTimezone = japan\<rparr>"
  have t: "trim (ascii ''9223372036854775808'') = ascii ''9223372036854775808''"
    by (simp add: trim_def ascii_def isWhiteSpace_def)
  have h1: "trim (inputId ?st) \<noteq> []"
    by (simp add: t) (simp add: ascii_def)
  have h2: "parseDecimalValue (trim (inputId ?st)) = Some 9223372036854775808"
    by (simp add: t)
      (simp add: parseDecimalValue_def isDecimal_def isDigit_def ascii_def BigInt_def)
  from out_of_range_rejected[of ?st 9223372036854775808 plainFormat 1700000000000] h1 h2
  show ?thesis by simp
qed

section \<open>The dispatch between the two parsers\<close>



section \<open>Empty input\<close>

text \<open>
  C9. For an input that is empty or made of white space only, the trimmed input is empty
  and the decoder leaves the empty-input message and no record. The parser is not what
  decides this: on the empty trimmed text it would return 0, a value in range.
\<close>

theorem empty_input_rejected:
  assumes "list_all isWhiteSpace (inputId st)"
  shows "trim (inputId st) = [] \<and>
         decodeId fmt now st = st\<lparr>error := Some EmptyInput, decodedId := None\<rparr> \<and>
         parseDecimalValue (trim (inputId st)) = Some 0"
proof -
  have t: "trim (inputId st) = []" using assms by (simp add: trim_Nil_iff)
  have "parseDecimalValue [] = Some 0"
    by (simp add: parseDecimalValue_def isDecimal_def toLowerCase_def decode36_def)
  then show ?thesis using t decodeId_empty[OF t, of fmt now] by simp
qed

theorem empty_input_rejected_witness:
  "decodeId plainFormat 1700000000000
     \<lparr>inputId = ascii ''   '', decodedId = None, error = None, selectedTimezone = japan\<rparr> =
   \<lparr>inputId = ascii ''   '', decodedId = None, error = Some EmptyInput,
    selectedTimezone = japan\<rparr> \<and>
   decodeId plainFormat 1700000000000
     \<lparr>inputId = [], decodedId = None, error = None, selectedTimezone = japan\<rparr> =
   \<lparr>inputId = [], decodedId = None, error = Some EmptyInput, selectedTimezone = japan\<rparr>"
proof -
  let ?s1 = "\<lparr>inputId = ascii ''   '', decodedId = None, error = None,
      selectedTimezone = japan\<rparr>"
  let ?s2 = "\<lparr>inputId = [], decodedId = None, error = None, selectedTimezone = japan\<rparr>"
  have h1: "list_all isWhiteSpace (inputId ?s1)"
    by (simp add: ascii_def isWhiteSpace_def)
  have h2: "list_all isWhiteSpace (inputId ?s2)"
    by simp
  from empty_input_rejected[OF h1, of plainFormat 1700000000000]
    empty_input_rejected[OF h2, of plainFormat 1700000000000]
  show ?thesis by simp
qed

text \<open>
  C10. \<open>decode36\<close> on the empty string returns 0 and no error, and so does the dispatch.
  The decoder still reports the empty input, through its own test of the trimmed text;
  the value 0 itself is accepted, as the input 0 shows.
\<close>

theorem decode36_of_empty_string:
  "decode36 [] = Some 0 \<and>
   parseDecimalValue [] = Some 0 \<and>
   decodeId fmt now (st\<lparr>inputId := []\<rparr>) =
     st\<lparr>inputId := [], error := Some EmptyInput, decodedId := None\<rparr> \<and>
   map_option decimalValue (decodedId (decodeId fmt now (st\<lparr>inputId := ascii ''0''\<rparr>))) = Some 0"
proof (intro conjI)
  show "decode36 [] = Some 0"
    by (simp add: decode36_def)
  show p: "parseDecimalValue [] = Some 0"
    by (simp add: parseDecimalValue_def isDecimal_def toLowerCase_def decode36_def)
  have "trim (inputId (st\<lparr>inputId := []\<rparr>)) = []"
    by (simp add: trim_def)
  then show "decodeId fmt now (st\<lparr>inputId := []\<rparr>) =
     st\<lparr>inputId := [], error := Some EmptyInput, decodedId := None\<rparr>"
    by (simp add: decodeId_empty)
  let ?st = "st\<lparr>inputId := ascii ''0''\<rparr>"
  have t: "trim (ascii ''0'') = ascii ''0''"
    by (simp add: trim_def ascii_def isWhiteSpace_def)
  have h1: "trim (inputId ?st) \<noteq> []"
    by (simp add: t) (simp add: ascii_def)
  have h2: "parseDecimalValue (trim (inputId ?st)) = Some 0"
    by (simp add: t)
      (simp add: parseDecimalValue_def isDecimal_def isDigit_def ascii_def BigInt_def)
  show "map_option decimalValue (decodedId (decodeId fmt now ?st)) = Some 0"
    by (simp add: decodeId_decoded[OF h1 h2])
qed

section \<open>Base-36 values beyond 64 bits\<close>

text \<open>
  \<open>decode36\<close> does not fail when the accumulated value leaves the unsigned 64-bit range:
  on the thirteen digits 3W5E11264SGSG it returns \<open>2 ^ 64\<close>.
\<close>

theorem base36_overflow_counterexample:
  "decode36 (ascii ''3W5E11264SGSG'') = Some 18446744073709551616 \<and>
   (18446744073709551616 :: int) > 2 ^ 64 - 1"
  by (simp add: decode36_def ascii_def digit36_def)

text \<open>
  C4, amended. \<open>decode36\<close> accumulates \<open>result * 36 + digit\<close> from left to right over
  unbounded integers: on every string of base-36 digits it returns the exact value,
  however large. A base-36 input whose value is above 9223372036854775807 is refused with
  the out-of-range message by the range check of the decoder.
\<close>

theorem base36_accumulation_unbounded:
  "(list_all (\<lambda>c. digit36 c \<noteq> - 1) s \<longrightarrow>
      decode36 s = Some (foldl (\<lambda>r c. r * 36 + digit36 c) 0 s)) \<and>
   (trim (inputId st) \<noteq> [] \<and> \<not> isDecimal (trim (inputId st)) \<and>
    decode36 (toLowerCase (trim (inputId st))) = Some v \<and> v > 9223372036854775807 \<longrightarrow>
      decodeId fmt now st = st\<lparr>error := Some OutOfRange, decodedId := None\<rparr>)"
proof (intro conjI impI)
  assume "list_all (\<lambda>c. digit36 c \<noteq> - 1) s"
  then show "decode36 s = Some (foldl (\<lambda>r c. r * 36 + digit36 c) 0 s)"
    by (simp add: decode36_def decode36_loop_foldl)
next
  assume a: "trim (inputId st) \<noteq> [] \<and> \<not> isDecimal (trim (inputId st)) \<and>
    decode36 (toLowerCase (trim (inputId st))) = Some v \<and> v > 9223372036854775807"
  then have p: "parseDecimalValue (trim (inputId st)) = Some v"
    by (simp add: parseDecimalValue_def)
  from a have ne: "trim (inputId st) \<noteq> []" and big: "v < 0 \<or> v > 9223372036854775807"
    by simp_all
  show "decodeId fmt now st = st\<lparr>error := Some OutOfRange, decodedId := None\<rparr>"
    by (rule decodeId_out_of_range[OF ne p big])
qed

theorem base36_accumulation_unbounded_witness:
  "decode36 (ascii ''3W5E11264SGSG'') =
     Some (foldl (\<lambda>r c. r * 36 + digit36 c) 0 (ascii ''3W5E11264SGSG'')) \<and>
   decodeId plainFormat 1700000000000
     \<lparr>inputId = ascii ''3W5E11264SGSG'', decodedId = None, error = None,
      selectedTimezone = japan\<rparr> =
   \<lparr>inputId = ascii ''3W5E11264SGSG'', decodedId = None, error = Some OutOfRange,
    selectedTimezone = japan\<rparr>"
proof -
  let ?st = "\<lparr>inputId = ascii ''3W5E11264SGSG'', decodedId = None, error = None,
      selectedTimezone = japan\<rparr>"
  have a: "list_all (\<lambda>c. digit36 c \<noteq> - 1) (ascii ''3W5E11264SGSG'')"
    by (simp add: ascii_def digit36_def)
  have t: "trim (ascii ''3W5E11264SGSG'') = ascii ''3W5E11264SGSG''"
    by (simp add: trim_def ascii_def isWhiteSpace_def)
  have h1: "trim (inputId ?st) \<noteq> []"
    by (simp add: t) (simp add: ascii_def)
  have h2: "\<not> isDecimal (trim (inputId ?st))"
    by (simp add: t) (simp add: isDecimal_def isDigit_def ascii_def)
  have h3: "decode36 (toLowerCase (trim (inputId ?st))) = Some 18446744073709551616"
    by (simp add: t)
      (simp add: toLowerCase_def lowerUnit_def decode36_def ascii_def digit36_def)
  from base36_accumulation_unbounded
    [of "ascii ''3W5E11264SGSG''" ?st 18446744073709551616 plainFormat 1700000000000]
    a h1 h2 h3
  show ?thesis by simp
qed

section \<open>The clock\<close>

text \<open>
  The decoder reads the clock itself. On the same input and the same state, a reading at
  the decoded timestamp gives \<open>isValid = True\<close>, a reading two hours earlier gives
  \<open>isValid = False\<close>.
\<close>

theorem clock_reading_counterexample:
  "map_option isValid (decodedId (decodeId plainFormat 1451697456789
     \<lparr>inputId = ascii ''1035630607911173'', decodedId = None, error = None,
      selectedTimezone = japan\<rparr>)) = Some True \<and>
   map_option isValid (decodedId (decodeId plainFormat 1451690256789
     \<lparr>inputId = ascii ''1035630607911173'', decodedId = None, error = None,
      selectedTimezone = japan\<rparr>)) = Some False"
proof -
  let ?st = "\<lparr>inputId = ascii ''1035630607911173'', decodedId = None, error = None,
      selectedTimezone = japan\<rparr>"
  have t: "trim (ascii ''1035630607911173'') = ascii ''1035630607911173''"
    by (simp add: trim_def ascii_def isWhiteSpace_def)
  have h1: "trim (inputId ?st) \<noteq> []"
    by (simp add: t) (simp add: ascii_def)
  have h2: "parseDecimalValue (trim (inputId ?st)) = Some 1035630607911173"
    by (simp add: t)
      (simp add: parseDecimalValue_def isDecimal_def isDigit_def ascii_def BigInt_def)
  have g: "getTimestamp 1035630607911173 = 1451697456789"
    by (simp add: getTimestamp_in_range drop_bit_eq_div TIMESTAMP_OFFSET_def)
  have n: "numAdd 1451697456789 60000 = 1451697516789" "numAdd 1451690256789 60000 = 1451690316789"
    by (simp_all add: numAdd_exact)
  show ?thesis
    by (simp add: decodeId_decoded[OF h1 h2] g n TIMESTAMP_OFFSET_def)
qed

text \<open>
  C8, amended. The reference time is not an argument of the decoder but a reading of the
  clock taken inside it. The reading reaches the flag \<open>isValid\<close> only: two runs on the
  same state with different readings leave the same \<open>error\<close>, and the same record up to
  \<open>isValid\<close>.
\<close>

theorem clock_reading_affects_only_isValid:
  "error (decodeId fmt now1 st) = error (decodeId fmt now2 st) \<and>
   inputId (decodeId fmt now1 st) = inputId (decodeId fmt now2 st) \<and>
   selectedTimezone (decodeId fmt now1 st) = selectedTimezone (decodeId fmt now2 st) \<and>
   map_option (\<lambda>r. r\<lparr>isValid := b\<rparr>) (decodedId (decodeId fmt now1 st)) =
     map_option (\<lambda>r. r\<lparr>isValid := b\<rparr>) (decodedId (decodeId fmt now2 st))"
  by (simp add: decodeId_def Let_def split: option.split)

end
